theory Spec2Isabelle
  imports Complex_Main
begin

section \<open>Scalars\<close>

text \<open>
  The vector types of \<^verbatim>\<open>Matrix.h\<close> are templates over a scalar type \<^verbatim>\<open>T\<close>. The
  template parameter is the type variable \<open>'a\<close>; each function asks of it only the
  operations the C++ body uses (the syntactic classes \<open>zero\<close>, \<open>one\<close>, \<open>plus\<close>,
  \<open>minus\<close>, \<open>times\<close>, \<open>inverse\<close>, \<open>uminus\<close>), so a theorem stated over \<open>'a\<close> holds
  whatever the scalar arithmetic is. The matrices store \<^verbatim>\<open>float\<close>; they are kept over
  \<open>'a\<close> in the same way.

  \<^verbatim>\<open>float\<close> itself (\<^verbatim>\<open>Vec2\<close>, \<^verbatim>\<open>Vec3\<close>, \<^verbatim>\<open>Vec4\<close> and the matrices) is IEEE 754
  binary32: a finite value, an infinity or NaN. A finite value is written \<open>Finite x\<close> with
  \<open>x\<close> the real number it stands for; the values of the format are those that rounding
  leaves unchanged (\<open>is_finite\<close>). Every operation computes the exact real result of its
  operands and rounds it once, to nearest with ties to even: 24 significant bits, least
  exponent \<open>-126\<close> with gradual underflow below it, overflow to an infinity from
  \<open>2 ^ 128\<close> on. Each operation of an expression is rounded on its own (no fused
  multiply-add, no excess precision). The two zeros are one value, as they are for
  \<^verbatim>\<open>==\<close>, and NaN carries neither sign nor payload.
\<close>

datatype float = Finite real | PInf | NInf | NaN

text \<open>The integer nearest to \<open>q\<close>, the even one of two equally near.\<close>

definition round_half_even :: "real \<Rightarrow> int" where
  "round_half_even q =
     (let f = \<lfloor>q\<rfloor>; d = q - of_int f
      in if d < 1 / 2 then f else if 1 / 2 < d then f + 1 else if even f then f else f + 1)"

text \<open>
  Rounding of a magnitude \<open>x \<ge> 0\<close>. In the binade of \<open>x\<close>, or in the subnormal range
  below \<open>2 ^ -126\<close>, the spacing of the format is \<open>ulp\<close>; \<open>x\<close> goes to the nearest
  multiple of it.
\<close>

definition round_mag :: "real \<Rightarrow> float" where
  "round_mag x =
     (if x = 0 then Finite 0
      else let e = max \<lfloor>log 2 x\<rfloor> (- 126);
               ulp = 2 powr of_int (e - 23);
               y = of_int (round_half_even (x / ulp)) * ulp
           in if 2 ^ 128 \<le> y then PInf else Finite y)"

fun fneg :: "float \<Rightarrow> float" where
  "fneg (Finite x) = Finite (- x)"
| "fneg PInf = NInf"
| "fneg NInf = PInf"
| "fneg NaN = NaN"

definition round32 :: "real \<Rightarrow> float" where
  "round32 x = (if x < 0 then fneg (round_mag (- x)) else round_mag x)"

text \<open>The arithmetic of the special values is that of IEEE 754.\<close>

fun fadd :: "float \<Rightarrow> float \<Rightarrow> float" where
  "fadd NaN _ = NaN"
| "fadd _ NaN = NaN"
| "fadd PInf NInf = NaN"
| "fadd NInf PInf = NaN"
| "fadd PInf _ = PInf"
| "fadd _ PInf = PInf"
| "fadd NInf _ = NInf"
| "fadd _ NInf = NInf"
| "fadd (Finite x) (Finite y) = round32 (x + y)"

fun fmul :: "float \<Rightarrow> float \<Rightarrow> float" where
  "fmul NaN _ = NaN"
| "fmul _ NaN = NaN"
| "fmul (Finite x) (Finite y) = round32 (x * y)"
| "fmul (Finite x) PInf = (if x = 0 then NaN else if 0 < x then PInf else NInf)"
| "fmul (Finite x) NInf = (if x = 0 then NaN else if 0 < x then NInf else PInf)"
| "fmul PInf (Finite y) = (if y = 0 then NaN else if 0 < y then PInf else NInf)"
| "fmul NInf (Finite y) = (if y = 0 then NaN else if 0 < y then NInf else PInf)"
| "fmul PInf PInf = PInf"
| "fmul PInf NInf = NInf"
| "fmul NInf PInf = NInf"
| "fmul NInf NInf = PInf"

fun fdiv :: "float \<Rightarrow> float \<Rightarrow> float" where
  "fdiv NaN _ = NaN"
| "fdiv _ NaN = NaN"
| "fdiv (Finite x) (Finite y) =
     (if y = 0 then (if x = 0 then NaN else if 0 < x then PInf else NInf)
      else round32 (x / y))"
| "fdiv (Finite x) PInf = Finite 0"
| "fdiv (Finite x) NInf = Finite 0"
| "fdiv PInf (Finite y) = (if 0 \<le> y then PInf else NInf)"
| "fdiv NInf (Finite y) = (if 0 \<le> y then NInf else PInf)"
| "fdiv PInf PInf = NaN"
| "fdiv PInf NInf = NaN"
| "fdiv NInf PInf = NaN"
| "fdiv NInf NInf = NaN"



text \<open>A finite value of the format.\<close>

fun is_finite :: "float \<Rightarrow> bool" where
  "is_finite (Finite x) = (round32 x = Finite x)"
| "is_finite _ = False"




text \<open>\<^verbatim>\<open>float\<close> as an instance of the scalar parameter: \<^verbatim>\<open>a - b\<close> is \<^verbatim>\<open>a + (-b)\<close>.\<close>

instantiation float :: "{zero,one,plus,minus,uminus,times,inverse}"
begin

definition zero_float_def: "(0::float) = Finite 0"

definition one_float_def: "(1::float) = Finite 1"

definition plus_float_def: "(a::float) + b = fadd a b"

definition uminus_float_def: "- (a::float) = fneg a"

definition minus_float_def: "(a::float) - b = fadd a (fneg b)"

definition times_float_def: "(a::float) * b = fmul a b"

definition divide_float_def: "(a::float) div b = fdiv a b"

definition inverse_float_def: "inverse (a::float) = fdiv (Finite 1) a"

instance ..

end

section \<open>TVec3\<close>

text \<open>
  \<^verbatim>\<open>union TVec3 { std::array<T, 3> data = {}; struct { T x; T y; T z; }; }\<close>:
  one storage, two views. The record holds the named view (fields \<open>x3\<close>, \<open>y3\<close>,
  \<open>z3\<close> for \<^verbatim>\<open>x\<close>, \<^verbatim>\<open>y\<close>, \<^verbatim>\<open>z\<close>); \<open>TVec3_data\<close> reads the array view and
  \<open>TVec3_of_data\<close> writes it.
\<close>

record 'a TVec3 =
  x3 :: 'a
  y3 :: 'a
  z3 :: 'a

definition TVec3_data :: "'a TVec3 \<Rightarrow> 'a list" where
  "TVec3_data v = [x3 v, y3 v, z3 v]"

definition TVec3_of_data :: "'a list \<Rightarrow> 'a TVec3" where
  "TVec3_of_data d = \<lparr>x3 = d ! 0, y3 = d ! 1, z3 = d ! 2\<rparr>"

text \<open>\<^verbatim>\<open>TVec3() = default;\<close> with the member initializer \<^verbatim>\<open>data = {}\<close>: the array is
  value-initialized, every element is \<^verbatim>\<open>T()\<close>.\<close>

definition TVec3_default :: "'a::zero TVec3" where
  "TVec3_default = TVec3_of_data (replicate 3 0)"

text \<open>\<^verbatim>\<open>TVec3(T _x, T _y, T _z) : data{_x, _y, _z} {}\<close>\<close>

definition TVec3_ctor :: "'a \<Rightarrow> 'a \<Rightarrow> 'a \<Rightarrow> 'a TVec3" where
  "TVec3_ctor x y z = TVec3_of_data [x, y, z]"




text \<open>The compound assignments update \<^verbatim>\<open>x\<close>, then \<^verbatim>\<open>y\<close>, then \<^verbatim>\<open>z\<close>, as the bodies do.\<close>

definition TVec3_add_assign :: "'a::plus TVec3 \<Rightarrow> 'a TVec3 \<Rightarrow> 'a TVec3" where
  "TVec3_add_assign this rhs =
     z3_update (\<lambda>z. z + z3 rhs) (y3_update (\<lambda>y. y + y3 rhs) (x3_update (\<lambda>x. x + x3 rhs) this))"

definition TVec3_sub_assign :: "'a::minus TVec3 \<Rightarrow> 'a TVec3 \<Rightarrow> 'a TVec3" where
  "TVec3_sub_assign this rhs =
     z3_update (\<lambda>z. z - z3 rhs) (y3_update (\<lambda>y. y - y3 rhs) (x3_update (\<lambda>x. x - x3 rhs) this))"

definition TVec3_mul_assign :: "'a::times TVec3 \<Rightarrow> 'a TVec3 \<Rightarrow> 'a TVec3" where
  "TVec3_mul_assign this rhs =
     z3_update (\<lambda>z. z * z3 rhs) (y3_update (\<lambda>y. y * y3 rhs) (x3_update (\<lambda>x. x * x3 rhs) this))"

definition TVec3_div_assign :: "'a::inverse TVec3 \<Rightarrow> 'a TVec3 \<Rightarrow> 'a TVec3" where
  "TVec3_div_assign this rhs =
     z3_update (\<lambda>z. z / z3 rhs) (y3_update (\<lambda>y. y / y3 rhs) (x3_update (\<lambda>x. x / x3 rhs) this))"

text \<open>\<^verbatim>\<open>TVec3 operator-() const { return {-x, -y, -z}; }\<close>\<close>

definition TVec3_neg :: "'a::uminus TVec3 \<Rightarrow> 'a TVec3" where
  "TVec3_neg this = TVec3_ctor (- x3 this) (- y3 this) (- z3 this)"

text \<open>The free binary operators take \<^verbatim>\<open>lhs\<close> by value and return \<^verbatim>\<open>lhs op= rhs\<close>.\<close>

definition TVec3_add :: "'a::plus TVec3 \<Rightarrow> 'a TVec3 \<Rightarrow> 'a TVec3" where
  "TVec3_add lhs rhs = TVec3_add_assign lhs rhs"

definition TVec3_sub :: "'a::minus TVec3 \<Rightarrow> 'a TVec3 \<Rightarrow> 'a TVec3" where
  "TVec3_sub lhs rhs = TVec3_sub_assign lhs rhs"

definition TVec3_mul :: "'a::times TVec3 \<Rightarrow> 'a TVec3 \<Rightarrow> 'a TVec3" where
  "TVec3_mul lhs rhs = TVec3_mul_assign lhs rhs"

definition TVec3_div :: "'a::inverse TVec3 \<Rightarrow> 'a TVec3 \<Rightarrow> 'a TVec3" where
  "TVec3_div lhs rhs = TVec3_div_assign lhs rhs"

definition TVec3_mul_scalar :: "'a::times TVec3 \<Rightarrow> 'a \<Rightarrow> 'a TVec3" where
  "TVec3_mul_scalar lhs scalar = TVec3_mul_assign lhs (TVec3_ctor scalar scalar scalar)"

definition TVec3_div_scalar :: "'a::inverse TVec3 \<Rightarrow> 'a \<Rightarrow> 'a TVec3" where
  "TVec3_div_scalar lhs scalar = TVec3_div_assign lhs (TVec3_ctor scalar scalar scalar)"


section \<open>TVec4\<close>

record 'a TVec4 =
  x4 :: 'a
  y4 :: 'a
  z4 :: 'a
  w4 :: 'a

definition TVec4_data :: "'a TVec4 \<Rightarrow> 'a list" where
  "TVec4_data v = [x4 v, y4 v, z4 v, w4 v]"

definition TVec4_of_data :: "'a list \<Rightarrow> 'a TVec4" where
  "TVec4_of_data d = \<lparr>x4 = d ! 0, y4 = d ! 1, z4 = d ! 2, w4 = d ! 3\<rparr>"

definition TVec4_default :: "'a::zero TVec4" where
  "TVec4_default = TVec4_of_data (replicate 4 0)"

text \<open>\<^verbatim>\<open>TVec4(T _x, T _y, T _z, T _w) : data{_x, _y, _z, _w} {}\<close>\<close>

definition TVec4_ctor :: "'a \<Rightarrow> 'a \<Rightarrow> 'a \<Rightarrow> 'a \<Rightarrow> 'a TVec4" where
  "TVec4_ctor x y z w = TVec4_of_data [x, y, z, w]"

text \<open>\<^verbatim>\<open>TVec4(TVec3<T> _vec, T _w) : TVec4{_vec.x, _vec.y, _vec.z, _w} {}\<close>\<close>

definition TVec4_from_TVec3 :: "'a TVec3 \<Rightarrow> 'a \<Rightarrow> 'a TVec4" where
  "TVec4_from_TVec3 vec w = TVec4_ctor (x3 vec) (y3 vec) (z3 vec) w"

definition TVec4_mul_assign :: "'a::times TVec4 \<Rightarrow> 'a TVec4 \<Rightarrow> 'a TVec4" where
  "TVec4_mul_assign this rhs =
     w4_update (\<lambda>w. w * w4 rhs) (z4_update (\<lambda>z. z * z4 rhs)
       (y4_update (\<lambda>y. y * y4 rhs) (x4_update (\<lambda>x. x * x4 rhs) this)))"

definition TVec4_div_assign :: "'a::inverse TVec4 \<Rightarrow> 'a TVec4 \<Rightarrow> 'a TVec4" where
  "TVec4_div_assign this rhs =
     w4_update (\<lambda>w. w / w4 rhs) (z4_update (\<lambda>z. z / z4 rhs)
       (y4_update (\<lambda>y. y / y4 rhs) (x4_update (\<lambda>x. x / x4 rhs) this)))"

definition TVec4_mul_assign_scalar :: "'a::times TVec4 \<Rightarrow> 'a \<Rightarrow> 'a TVec4" where
  "TVec4_mul_assign_scalar this scalar =
     TVec4_mul_assign this (TVec4_ctor scalar scalar scalar scalar)"

definition TVec4_div_assign_scalar :: "'a::inverse TVec4 \<Rightarrow> 'a \<Rightarrow> 'a TVec4" where
  "TVec4_div_assign_scalar this scalar =
     TVec4_div_assign this (TVec4_ctor scalar scalar scalar scalar)"

definition TVec4_mul_scalar :: "'a::times TVec4 \<Rightarrow> 'a \<Rightarrow> 'a TVec4" where
  "TVec4_mul_scalar lhs scalar = TVec4_mul_assign_scalar lhs scalar"

definition TVec4_div_scalar :: "'a::inverse TVec4 \<Rightarrow> 'a \<Rightarrow> 'a TVec4" where
  "TVec4_div_scalar lhs scalar = TVec4_div_assign_scalar lhs scalar"

section \<open>TVec2\<close>

record 'a TVec2 =
  x2 :: 'a
  y2 :: 'a

definition TVec2_data :: "'a TVec2 \<Rightarrow> 'a list" where
  "TVec2_data v = [x2 v, y2 v]"

definition TVec2_of_data :: "'a list \<Rightarrow> 'a TVec2" where
  "TVec2_of_data d = \<lparr>x2 = d ! 0, y2 = d ! 1\<rparr>"

definition TVec2_default :: "'a::zero TVec2" where
  "TVec2_default = TVec2_of_data (replicate 2 0)"

definition TVec2_ctor :: "'a \<Rightarrow> 'a \<Rightarrow> 'a TVec2" where
  "TVec2_ctor x y = TVec2_of_data [x, y]"





definition TVec2_add_assign :: "'a::plus TVec2 \<Rightarrow> 'a TVec2 \<Rightarrow> 'a TVec2" where
  "TVec2_add_assign this rhs =
     y2_update (\<lambda>y. y + y2 rhs) (x2_update (\<lambda>x. x + x2 rhs) this)"

definition TVec2_sub_assign :: "'a::minus TVec2 \<Rightarrow> 'a TVec2 \<Rightarrow> 'a TVec2" where
  "TVec2_sub_assign this rhs =
     y2_update (\<lambda>y. y - y2 rhs) (x2_update (\<lambda>x. x - x2 rhs) this)"

definition TVec2_mul_assign_scalar :: "'a::times TVec2 \<Rightarrow> 'a \<Rightarrow> 'a TVec2" where
  "TVec2_mul_assign_scalar this scalar =
     y2_update (\<lambda>y. y * scalar) (x2_update (\<lambda>x. x * scalar) this)"

definition TVec2_div_assign_scalar :: "'a::inverse TVec2 \<Rightarrow> 'a \<Rightarrow> 'a TVec2" where
  "TVec2_div_assign_scalar this scalar =
     y2_update (\<lambda>y. y / scalar) (x2_update (\<lambda>x. x / scalar) this)"

text \<open>\<^verbatim>\<open>TVec2 operator-() const { return {-x, -y}; }\<close>\<close>

definition TVec2_neg :: "'a::uminus TVec2 \<Rightarrow> 'a TVec2" where
  "TVec2_neg this = TVec2_ctor (- x2 this) (- y2 this)"

definition TVec2_add :: "'a::plus TVec2 \<Rightarrow> 'a TVec2 \<Rightarrow> 'a TVec2" where
  "TVec2_add lhs rhs = TVec2_add_assign lhs rhs"

definition TVec2_sub :: "'a::minus TVec2 \<Rightarrow> 'a TVec2 \<Rightarrow> 'a TVec2" where
  "TVec2_sub lhs rhs = TVec2_sub_assign lhs rhs"

definition TVec2_mul_scalar :: "'a::times TVec2 \<Rightarrow> 'a \<Rightarrow> 'a TVec2" where
  "TVec2_mul_scalar lhs scalar = TVec2_mul_assign_scalar lhs scalar"

definition TVec2_div_scalar :: "'a::inverse TVec2 \<Rightarrow> 'a \<Rightarrow> 'a TVec2" where
  "TVec2_div_scalar lhs scalar = TVec2_div_assign_scalar lhs scalar"


section \<open>The operators the header declares\<close>

text \<open>
  Which operator expressions on scalars and vectors are well-formed is part of the
  header: an expression for which \<^verbatim>\<open>Matrix.h\<close> declares no viable overload does not
  compile. \<open>binary_operator\<close> resolves \<^verbatim>\<open>l op r\<close> over the free operator templates,
  \<open>compound_assignment\<close> resolves \<^verbatim>\<open>l op= r\<close> over the member operators, and
  \<open>unary_negation\<close> resolves \<^verbatim>\<open>-v\<close>; \<open>None\<close> is "no overload". The vector types
  have no converting constructor, so no operand is converted to a vector, and a vector
  converts to no scalar. On two scalars the operators are the built-in ones.
\<close>

datatype binop = Add | Sub | Mul | Div

datatype 'a operand = OpScalar 'a | OpVec2 "'a TVec2" | OpVec3 "'a TVec3" | OpVec4 "'a TVec4"

definition binary_operator ::
  "binop \<Rightarrow> 'a::{plus,minus,times,inverse} operand \<Rightarrow> 'a operand \<Rightarrow> 'a operand option" where
  "binary_operator op l r =
    (case (op, l, r) of
       (Add, OpVec3 lhs, OpVec3 rhs) \<Rightarrow> Some (OpVec3 (TVec3_add lhs rhs))
     | (Sub, OpVec3 lhs, OpVec3 rhs) \<Rightarrow> Some (OpVec3 (TVec3_sub lhs rhs))
     | (Mul, OpVec3 lhs, OpVec3 rhs) \<Rightarrow> Some (OpVec3 (TVec3_mul lhs rhs))
     | (Div, OpVec3 lhs, OpVec3 rhs) \<Rightarrow> Some (OpVec3 (TVec3_div lhs rhs))
     | (Mul, OpVec3 lhs, OpScalar scalar) \<Rightarrow> Some (OpVec3 (TVec3_mul_scalar lhs scalar))
     | (Div, OpVec3 lhs, OpScalar scalar) \<Rightarrow> Some (OpVec3 (TVec3_div_scalar lhs scalar))
     | (Mul, OpVec4 lhs, OpScalar scalar) \<Rightarrow> Some (OpVec4 (TVec4_mul_scalar lhs scalar))
     | (Div, OpVec4 lhs, OpScalar scalar) \<Rightarrow> Some (OpVec4 (TVec4_div_scalar lhs scalar))
     | (Add, OpVec2 lhs, OpVec2 rhs) \<Rightarrow> Some (OpVec2 (TVec2_add lhs rhs))
     | (Sub, OpVec2 lhs, OpVec2 rhs) \<Rightarrow> Some (OpVec2 (TVec2_sub lhs rhs))
     | (Mul, OpVec2 lhs, OpScalar scalar) \<Rightarrow> Some (OpVec2 (TVec2_mul_scalar lhs scalar))
     | (Div, OpVec2 lhs, OpScalar scalar) \<Rightarrow> Some (OpVec2 (TVec2_div_scalar lhs scalar))
     | (Add, OpScalar a, OpScalar b) \<Rightarrow> Some (OpScalar (a + b))
     | (Sub, OpScalar a, OpScalar b) \<Rightarrow> Some (OpScalar (a - b))
     | (Mul, OpScalar a, OpScalar b) \<Rightarrow> Some (OpScalar (a * b))
     | (Div, OpScalar a, OpScalar b) \<Rightarrow> Some (OpScalar (a / b))
     | _ \<Rightarrow> None)"

definition compound_assignment ::
  "binop \<Rightarrow> 'a::{plus,minus,times,inverse} operand \<Rightarrow> 'a operand \<Rightarrow> 'a operand option" where
  "compound_assignment op l r =
    (case (op, l, r) of
       (Add, OpVec3 this, OpVec3 rhs) \<Rightarrow> Some (OpVec3 (TVec3_add_assign this rhs))
     | (Sub, OpVec3 this, OpVec3 rhs) \<Rightarrow> Some (OpVec3 (TVec3_sub_assign this rhs))
     | (Mul, OpVec3 this, OpVec3 rhs) \<Rightarrow> Some (OpVec3 (TVec3_mul_assign this rhs))
     | (Div, OpVec3 this, OpVec3 rhs) \<Rightarrow> Some (OpVec3 (TVec3_div_assign this rhs))
     | (Mul, OpVec4 this, OpVec4 rhs) \<Rightarrow> Some (OpVec4 (TVec4_mul_assign this rhs))
     | (Div, OpVec4 this, OpVec4 rhs) \<Rightarrow> Some (OpVec4 (TVec4_div_assign this rhs))
     | (Mul, OpVec4 this, OpScalar scalar) \<Rightarrow> Some (OpVec4 (TVec4_mul_assign_scalar this scalar))
     | (Div, OpVec4 this, OpScalar scalar) \<Rightarrow> Some (OpVec4 (TVec4_div_assign_scalar this scalar))
     | (Add, OpVec2 this, OpVec2 rhs) \<Rightarrow> Some (OpVec2 (TVec2_add_assign this rhs))
     | (Sub, OpVec2 this, OpVec2 rhs) \<Rightarrow> Some (OpVec2 (TVec2_sub_assign this rhs))
     | (Mul, OpVec2 this, OpScalar scalar) \<Rightarrow> Some (OpVec2 (TVec2_mul_assign_scalar this scalar))
     | (Div, OpVec2 this, OpScalar scalar) \<Rightarrow> Some (OpVec2 (TVec2_div_assign_scalar this scalar))
     | (Add, OpScalar a, OpScalar b) \<Rightarrow> Some (OpScalar (a + b))
     | (Sub, OpScalar a, OpScalar b) \<Rightarrow> Some (OpScalar (a - b))
     | (Mul, OpScalar a, OpScalar b) \<Rightarrow> Some (OpScalar (a * b))
     | (Div, OpScalar a, OpScalar b) \<Rightarrow> Some (OpScalar (a / b))
     | _ \<Rightarrow> None)"

definition unary_negation :: "'a::uminus operand \<Rightarrow> 'a operand option" where
  "unary_negation v =
    (case v of
       OpVec3 this \<Rightarrow> Some (OpVec3 (TVec3_neg this))
     | OpVec2 this \<Rightarrow> Some (OpVec2 (TVec2_neg this))
     | OpScalar a \<Rightarrow> Some (OpScalar (- a))
     | OpVec4 this \<Rightarrow> None)"

section \<open>Matrix33 and Matrix44\<close>

text \<open>
  \<^verbatim>\<open>std::array<float, 9> data\<close> and \<^verbatim>\<open>std::array<float, 16> data\<close>, row-major: the
  cell of row \<open>r\<close> and column \<open>c\<close> of an \<open>n\<close> by \<open>n\<close> matrix is \<open>data ! (r * n + c)\<close>.
  \<open>row_major n cell\<close> lays the cells out in that order.
\<close>

record 'a Matrix33 =
  data33 :: "'a list"

record 'a Matrix44 =
  data44 :: "'a list"

definition row_major :: "nat \<Rightarrow> (nat \<Rightarrow> nat \<Rightarrow> 'a) \<Rightarrow> 'a list" where
  "row_major n cell = concat (map (\<lambda>r. map (\<lambda>c. cell r c) [0..<n]) [0..<n])"

text \<open>
  Modelled from the spec: the bodies of \<^verbatim>\<open>Matrix33::Multiply\<close> and
  \<^verbatim>\<open>Matrix44::Multiply\<close> are not in \<^verbatim>\<open>Matrix.h\<close>, which only declares them. The spec:
  "matrix product a.b written into result, standard row-by-column dot product" and
  "standard matrix-vector product (result[i] = row i of a . vec)". \<open>MatrixMultiply N M P\<close>
  is the product of an \<open>N\<close> by \<open>M\<close> and an \<open>M\<close> by \<open>P\<close> row-major array; each cell is
  accumulated from \<open>0\<close>, left to right.
\<close>

definition MatrixMultiply ::
  "nat \<Rightarrow> nat \<Rightarrow> nat \<Rightarrow> 'a::{zero,plus,times} list \<Rightarrow> 'a list \<Rightarrow> 'a list" where
  "MatrixMultiply N M P a b =
     concat (map (\<lambda>i. map (\<lambda>j. foldl (+) 0 (map (\<lambda>k. a ! (i * M + k) * b ! (k * P + j)) [0..<M]))
                      [0..<P]) [0..<N])"

text \<open>
  \<^verbatim>\<open>Multiply\<close> takes its operands by reference and its result by pointer, and the
  header calls it with the result aliasing an operand. Objects therefore live in a
  store, a function from addresses to values, one store per object type (a matrix and a
  vector never share storage). An operand that cannot alias the result is passed as a
  value.
\<close>

type_synonym addr = nat

text \<open>
  Modelled from the spec: \<^verbatim>\<open>Matrix33::Multiply(const Matrix33& a, const Matrix33& b,
  Matrix33* result)\<close>, body not in the sources. The spec: "result may safely alias a or b
  (implementation must not read from a cell after it has been overwritten - buffer the
  output or compute into a temporary before assigning)" and, in its design notes,
  "computing into a local temporary and assigning at the end".
\<close>

definition Matrix33_Multiply ::
  "addr \<Rightarrow> addr \<Rightarrow> addr \<Rightarrow> (addr \<Rightarrow> 'a::{zero,plus,times} Matrix33) \<Rightarrow> (addr \<Rightarrow> 'a Matrix33)" where
  "Matrix33_Multiply a b result h =
     (let temp = MatrixMultiply 3 3 3 (data33 (h a)) (data33 (h b))
      in h(result := \<lparr>data33 = temp\<rparr>))"

text \<open>
  Modelled from the spec: \<^verbatim>\<open>Matrix33::Multiply(const Matrix33& a, const Vec3& vec,
  Vec3* result)\<close>, body not in the sources; "same no-partial-overwrite aliasing
  guarantee".
\<close>

definition Matrix33_Multiply_Vec3 ::
  "'a::{zero,plus,times} Matrix33 \<Rightarrow> addr \<Rightarrow> addr \<Rightarrow> (addr \<Rightarrow> 'a TVec3) \<Rightarrow> (addr \<Rightarrow> 'a TVec3)" where
  "Matrix33_Multiply_Vec3 a vec result h =
     (let temp = MatrixMultiply 3 3 1 (data33 a) (TVec3_data (h vec))
      in h(result := TVec3_of_data temp))"

text \<open>\<^verbatim>\<open>Matrix33& operator*=(const Matrix33& rhs) { Multiply(*this, rhs, this); return *this; }\<close>\<close>

definition Matrix33_mul_assign ::
  "addr \<Rightarrow> addr \<Rightarrow> (addr \<Rightarrow> 'a::{zero,plus,times} Matrix33) \<Rightarrow> (addr \<Rightarrow> 'a Matrix33)" where
  "Matrix33_mul_assign this rhs h = Matrix33_Multiply this rhs this h"

text \<open>
  \<^verbatim>\<open>inline Vec3 operator*(const Matrix33& lhs, Vec3 rhs) { Matrix33::Multiply(lhs, rhs, &rhs);
  return rhs; }\<close>: the by-value parameter \<^verbatim>\<open>rhs\<close> is the object at address \<open>0\<close> of the
  callee's own store; it is both the input vector and the result.
\<close>

definition Matrix33_times_Vec3 :: "'a::{zero,plus,times} Matrix33 \<Rightarrow> 'a TVec3 \<Rightarrow> 'a TVec3" where
  "Matrix33_times_Vec3 lhs rhs = Matrix33_Multiply_Vec3 lhs 0 0 (\<lambda>_. rhs) 0"

text \<open>
  Modelled from the spec: \<^verbatim>\<open>Matrix44::Multiply\<close>, both overloads, bodies not in the
  sources; "same contract and aliasing guarantee as Matrix33".
\<close>

definition Matrix44_Multiply ::
  "addr \<Rightarrow> addr \<Rightarrow> addr \<Rightarrow> (addr \<Rightarrow> 'a::{zero,plus,times} Matrix44) \<Rightarrow> (addr \<Rightarrow> 'a Matrix44)" where
  "Matrix44_Multiply a b result h =
     (let temp = MatrixMultiply 4 4 4 (data44 (h a)) (data44 (h b))
      in h(result := \<lparr>data44 = temp\<rparr>))"

definition Matrix44_Multiply_Vec4 ::
  "'a::{zero,plus,times} Matrix44 \<Rightarrow> addr \<Rightarrow> addr \<Rightarrow> (addr \<Rightarrow> 'a TVec4) \<Rightarrow> (addr \<Rightarrow> 'a TVec4)" where
  "Matrix44_Multiply_Vec4 a vec result h =
     (let temp = MatrixMultiply 4 4 1 (data44 a) (TVec4_data (h vec))
      in h(result := TVec4_of_data temp))"

text \<open>\<^verbatim>\<open>Matrix44& operator*=(const Matrix44& rhs) { Multiply(*this, rhs, this); return *this; }\<close>\<close>

definition Matrix44_mul_assign ::
  "addr \<Rightarrow> addr \<Rightarrow> (addr \<Rightarrow> 'a::{zero,plus,times} Matrix44) \<Rightarrow> (addr \<Rightarrow> 'a Matrix44)" where
  "Matrix44_mul_assign this rhs h = Matrix44_Multiply this rhs this h"

text \<open>\<^verbatim>\<open>inline Vec4 operator*(const Matrix44& lhs, Vec4 rhs) { Matrix44::Multiply(lhs, rhs, &rhs);
  return rhs; }\<close>\<close>

definition Matrix44_times_Vec4 :: "'a::{zero,plus,times} Matrix44 \<Rightarrow> 'a TVec4 \<Rightarrow> 'a TVec4" where
  "Matrix44_times_Vec4 lhs rhs = Matrix44_Multiply_Vec4 lhs 0 0 (\<lambda>_. rhs) 0"

text \<open>
  The other side of the aliasing claim, in the spec's words: "computing into a fresh
  temporary and copying it over afterward". The product is written to the object at
  \<open>tmp\<close>, then that object is assigned to \<open>result\<close>.
\<close>

definition Matrix33_Multiply_via_temporary ::
  "addr \<Rightarrow> addr \<Rightarrow> addr \<Rightarrow> addr \<Rightarrow> (addr \<Rightarrow> 'a::{zero,plus,times} Matrix33) \<Rightarrow> (addr \<Rightarrow> 'a Matrix33)" where
  "Matrix33_Multiply_via_temporary a b result tmp h =
     (let h1 = Matrix33_Multiply a b tmp h in h1(result := h1 tmp))"

definition Matrix44_Multiply_via_temporary ::
  "addr \<Rightarrow> addr \<Rightarrow> addr \<Rightarrow> addr \<Rightarrow> (addr \<Rightarrow> 'a::{zero,plus,times} Matrix44) \<Rightarrow> (addr \<Rightarrow> 'a Matrix44)" where
  "Matrix44_Multiply_via_temporary a b result tmp h =
     (let h1 = Matrix44_Multiply a b tmp h in h1(result := h1 tmp))"

definition Matrix33_Multiply_Vec3_via_temporary ::
  "'a::{zero,plus,times} Matrix33 \<Rightarrow> addr \<Rightarrow> addr \<Rightarrow> addr \<Rightarrow> (addr \<Rightarrow> 'a TVec3) \<Rightarrow> (addr \<Rightarrow> 'a TVec3)" where
  "Matrix33_Multiply_Vec3_via_temporary a vec result tmp h =
     (let h1 = Matrix33_Multiply_Vec3 a vec tmp h in h1(result := h1 tmp))"

definition Matrix44_Multiply_Vec4_via_temporary ::
  "'a::{zero,plus,times} Matrix44 \<Rightarrow> addr \<Rightarrow> addr \<Rightarrow> addr \<Rightarrow> (addr \<Rightarrow> 'a TVec4) \<Rightarrow> (addr \<Rightarrow> 'a TVec4)" where
  "Matrix44_Multiply_Vec4_via_temporary a vec result tmp h =
     (let h1 = Matrix44_Multiply_Vec4 a vec tmp h in h1(result := h1 tmp))"

text \<open>
  Modelled from the spec: \<^verbatim>\<open>Matrix33::Identity()\<close>, body not in the sources. The spec:
  "the multiplicative identity (1 on the diagonal, 0 elsewhere)".
\<close>

definition Matrix33_Identity :: "'a::{zero,one} Matrix33" where
  "Matrix33_Identity = \<lparr>data33 = row_major 3 (\<lambda>r c. if r = c then 1 else 0)\<rparr>"

section \<open>Auxiliary facts\<close>

lemma upt_0_1: "[0..<1] = [0]"
  by (simp add: upt_rec)

lemma upt_0_3: "[0..<3] = [0, 1, 2]"
  by (simp add: upt_rec)

lemma upt_0_4: "[0..<4] = [0, 1, 2, 3]"
  by (simp add: upt_rec)

lemmas TVec_assign_defs =
  TVec3_add_assign_def TVec3_sub_assign_def TVec3_mul_assign_def TVec3_div_assign_def
  TVec4_mul_assign_def TVec4_div_assign_def
  TVec2_add_assign_def TVec2_sub_assign_def TVec2_mul_assign_scalar_def TVec2_div_assign_scalar_def

lemmas TVec_ctor_defs =
  TVec3_ctor_def TVec3_of_data_def TVec4_ctor_def TVec4_of_data_def TVec2_ctor_def TVec2_of_data_def

lemma data33_Identity:
  "data33 (Matrix33_Identity :: 'a::{zero,one} Matrix33) = [1, 0, 0, 0, 1, 0, 0, 0, 1]"
  by (simp add: Matrix33_Identity_def row_major_def upt_0_3)

lemma rhe_int [simp]: "round_half_even (of_int n) = n"
  by (simp add: round_half_even_def)



lemma rhe_le: assumes "q \<le> of_int n" shows "round_half_even q \<le> n"
proof (cases "q = of_int n")
  case True
  then show ?thesis by simp
next
  case False
  with assms have "q < of_int n" by simp
  then have "\<lfloor>q\<rfloor> < n" by (simp add: floor_less_iff)
  then show ?thesis by (auto simp: round_half_even_def Let_def)
qed

lemma round_mag_exact:
  assumes x: "0 < x" and e: "e = max \<lfloor>log 2 x\<rfloor> (- 126)"
    and m: "x = of_int m * 2 powr of_int (e - 23)" and lt: "x < 2 ^ 128"
  shows "round_mag x = Finite x"
proof -
  have "x / 2 powr of_int (e - 23) = of_int m"
    using m by simp
  then show ?thesis
    using x lt e [symmetric] m [symmetric] by (simp add: round_mag_def Let_def)
qed


lemma fneg_fneg [simp]: "fneg (fneg a) = a"
  by (cases a) simp_all

lemma round_mag_0 [simp]: "round_mag 0 = Finite 0"
  by (simp add: round_mag_def)

lemma round32_0 [simp]: "round32 0 = Finite 0"
  by (simp add: round32_def)

lemma round32_minus: "round32 (- x) = fneg (round32 x)"
  by (cases "x = 0") (auto simp: round32_def)



lemma round_mag_of_int:
  assumes "0 \<le> n" "n < 2 ^ 24"
  shows "round_mag (of_int n) = Finite (of_int n)"
proof (cases "n = 0")
  case True
  then show ?thesis by simp
next
  case False
  with assms have pos: "0 < (of_int n :: real)" by simp
  define e where "e = \<lfloor>log 2 (of_int n)\<rfloor>"
  have "1 \<le> (of_int n :: real)" using False assms by linarith
  then have "0 \<le> log 2 (of_int n)" by simp
  then have e0: "0 \<le> e" by (simp add: e_def)
  have "(of_int n :: real) < 2 powr 24" using assms by simp
  then have "log 2 (of_int n) < 24" using pos by (subst log_less_iff) auto
  then have e23: "e \<le> 23" by (simp add: e_def floor_le_iff)
  have em: "e = max \<lfloor>log 2 (of_int n)\<rfloor> (- 126)" using e0 by (simp add: e_def)
  define k where "k = nat (23 - e)"
  have k: "of_int (e - 23) = - real k" using e23 by (simp add: k_def)
  have "(2::real) powr of_int (e - 23) = 1 / 2 ^ k"
    unfolding k by (simp add: powr_minus powr_realpow inverse_eq_divide)
  then have m: "(of_int n :: real) = of_int (n * 2 ^ k) * 2 powr of_int (e - 23)" by simp
  have "(of_int n :: real) < 2 ^ 24" using assms by simp
  moreover have "(2::real) ^ 24 \<le> 2 ^ 128" by simp
  ultimately have "(of_int n :: real) < 2 ^ 128" by (rule less_le_trans)
  from round_mag_exact [OF pos em m this] show ?thesis .
qed

lemma round32_of_int:
  assumes "\<bar>n\<bar> < 2 ^ 24"
  shows "round32 (of_int n) = Finite (of_int n)"
proof (cases "n < 0")
  case True
  then have "round_mag (of_int (- n)) = Finite (of_int (- n))"
    using assms by (intro round_mag_of_int) auto
  with True show ?thesis by (simp add: round32_def)
next
  case False
  then show ?thesis using assms by (simp add: round32_def round_mag_of_int)
qed

lemma round32_numeral [simp]:
  "numeral w < (2 ^ 24 :: int) \<Longrightarrow> round32 (numeral w) = Finite (numeral w)"
  using round32_of_int [of "numeral w"] by simp

lemma round32_1 [simp]: "round32 1 = Finite 1"
  using round32_of_int [of 1] by simp


lemma is_finiteE:
  assumes "is_finite a"
  obtains x where "a = Finite x" "round32 x = Finite x"
  using assms by (cases a) auto

lemma float_one_times: "is_finite a \<Longrightarrow> 1 * a = a"
  by (auto elim!: is_finiteE simp: times_float_def one_float_def)

lemma float_zero_times: "is_finite a \<Longrightarrow> 0 * a = 0"
  by (auto elim!: is_finiteE simp: times_float_def zero_float_def)

lemma float_zero_plus: "is_finite a \<Longrightarrow> 0 + a = a"
  by (auto elim!: is_finiteE simp: plus_float_def zero_float_def)

lemma float_plus_zero: "is_finite a \<Longrightarrow> a + 0 = a"
  by (auto elim!: is_finiteE simp: plus_float_def zero_float_def)

lemma is_finite_zero: "is_finite 0"
  by (simp add: zero_float_def)





lemma round32_neg_numeral [simp]:
  "numeral w < (2 ^ 24 :: int) \<Longrightarrow> round32 (- numeral w) = Finite (- numeral w)"
  by (simp add: round32_minus)









subsection \<open>Error bounds of the rounded operations\<close>





















section \<open>Properties of the vector types\<close>

text \<open>
  Claim C10. A default-constructed \<^verbatim>\<open>TVec2\<close>, \<^verbatim>\<open>TVec3\<close> or \<^verbatim>\<open>TVec4\<close> is the zero
  vector: the storage array holds zeros only, and so every named component is \<open>0\<close>.
\<close>

theorem default_constructed_is_zero:
  "TVec2_data (TVec2_default :: 'a::zero TVec2) = [0, 0]
   \<and> x2 (TVec2_default :: 'a TVec2) = 0 \<and> y2 (TVec2_default :: 'a TVec2) = 0
   \<and> TVec3_data (TVec3_default :: 'a TVec3) = [0, 0, 0]
   \<and> x3 (TVec3_default :: 'a TVec3) = 0 \<and> y3 (TVec3_default :: 'a TVec3) = 0
   \<and> z3 (TVec3_default :: 'a TVec3) = 0
   \<and> TVec4_data (TVec4_default :: 'a TVec4) = [0, 0, 0, 0]
   \<and> x4 (TVec4_default :: 'a TVec4) = 0 \<and> y4 (TVec4_default :: 'a TVec4) = 0
   \<and> z4 (TVec4_default :: 'a TVec4) = 0 \<and> w4 (TVec4_default :: 'a TVec4) = 0"
  by (simp add: TVec2_default_def TVec3_default_def TVec4_default_def TVec_ctor_defs
      TVec2_data_def TVec3_data_def TVec4_data_def numeral_2_eq_2 numeral_3_eq_3
      eval_nat_numeral(2))

text \<open>
  Claim C2, as the header has it. For every pair of \<^verbatim>\<open>TVec2\<close> or \<^verbatim>\<open>TVec3\<close> vectors the
  binary operators \<^verbatim>\<open>+\<close> and \<^verbatim>\<open>-\<close> compute the componentwise sum and difference, and
  unary negation flips the sign of every component; for \<^verbatim>\<open>TVec3\<close> the binary operators
  \<^verbatim>\<open>*\<close> and \<^verbatim>\<open>/\<close> compute the componentwise product and quotient. \<^verbatim>\<open>TVec4\<close> has its
  componentwise product and quotient as the compound assignments \<^verbatim>\<open>*=\<close> and \<^verbatim>\<open>/=\<close>
  only: the header declares no \<^verbatim>\<open>+\<close>, \<^verbatim>\<open>-\<close>, or unary negation for it, and no binary
  \<^verbatim>\<open>*\<close> or \<^verbatim>\<open>/\<close> between two \<^verbatim>\<open>TVec4\<close>. No law of the scalar arithmetic is used.
\<close>

theorem vector_operators_componentwise:
  fixes a2 b2 :: "'a::{plus,minus,times,inverse,uminus} TVec2"
    and a3 b3 :: "'a TVec3" and a4 b4 :: "'a TVec4"
  shows
  "binary_operator Add (OpVec2 a2) (OpVec2 b2)
     = Some (OpVec2 \<lparr>x2 = x2 a2 + x2 b2, y2 = y2 a2 + y2 b2\<rparr>)
   \<and> binary_operator Sub (OpVec2 a2) (OpVec2 b2)
     = Some (OpVec2 \<lparr>x2 = x2 a2 - x2 b2, y2 = y2 a2 - y2 b2\<rparr>)
   \<and> unary_negation (OpVec2 a2) = Some (OpVec2 \<lparr>x2 = - x2 a2, y2 = - y2 a2\<rparr>)
   \<and> binary_operator Add (OpVec3 a3) (OpVec3 b3)
     = Some (OpVec3 \<lparr>x3 = x3 a3 + x3 b3, y3 = y3 a3 + y3 b3, z3 = z3 a3 + z3 b3\<rparr>)
   \<and> binary_operator Sub (OpVec3 a3) (OpVec3 b3)
     = Some (OpVec3 \<lparr>x3 = x3 a3 - x3 b3, y3 = y3 a3 - y3 b3, z3 = z3 a3 - z3 b3\<rparr>)
   \<and> binary_operator Mul (OpVec3 a3) (OpVec3 b3)
     = Some (OpVec3 \<lparr>x3 = x3 a3 * x3 b3, y3 = y3 a3 * y3 b3, z3 = z3 a3 * z3 b3\<rparr>)
   \<and> binary_operator Div (OpVec3 a3) (OpVec3 b3)
     = Some (OpVec3 \<lparr>x3 = x3 a3 / x3 b3, y3 = y3 a3 / y3 b3, z3 = z3 a3 / z3 b3\<rparr>)
   \<and> unary_negation (OpVec3 a3) = Some (OpVec3 \<lparr>x3 = - x3 a3, y3 = - y3 a3, z3 = - z3 a3\<rparr>)
   \<and> compound_assignment Mul (OpVec4 a4) (OpVec4 b4)
     = Some (OpVec4 \<lparr>x4 = x4 a4 * x4 b4, y4 = y4 a4 * y4 b4, z4 = z4 a4 * z4 b4, w4 = w4 a4 * w4 b4\<rparr>)
   \<and> compound_assignment Div (OpVec4 a4) (OpVec4 b4)
     = Some (OpVec4 \<lparr>x4 = x4 a4 / x4 b4, y4 = y4 a4 / y4 b4, z4 = z4 a4 / z4 b4, w4 = w4 a4 / w4 b4\<rparr>)
   \<and> binary_operator Add (OpVec4 a4) (OpVec4 b4) = None
   \<and> binary_operator Sub (OpVec4 a4) (OpVec4 b4) = None
   \<and> binary_operator Mul (OpVec4 a4) (OpVec4 b4) = None
   \<and> binary_operator Div (OpVec4 a4) (OpVec4 b4) = None
   \<and> unary_negation (OpVec4 a4) = None"
  by (simp add: binary_operator_def compound_assignment_def unary_negation_def
      TVec3_add_def TVec3_sub_def TVec3_mul_def TVec3_div_def TVec2_add_def TVec2_sub_def
      TVec3_neg_def TVec2_neg_def TVec_assign_defs TVec_ctor_defs)

text \<open>
  Claim C2 as it was stated asks that \<^verbatim>\<open>+\<close> on two \<^verbatim>\<open>TVec4\<close> vectors yield their
  componentwise sum. For \<open>(1, 2, 3, 4) + (5, 6, 7, 8)\<close> no overload exists, so the
  expression has no value, and in particular not that sum.
\<close>

theorem TVec4_plus_counterexample:
  "binary_operator Add (OpVec4 \<lparr>x4 = 1, y4 = 2, z4 = 3, w4 = 4\<rparr>)
                       (OpVec4 \<lparr>x4 = 5, y4 = 6, z4 = 7, w4 = 8\<rparr>)
     \<noteq> Some (OpVec4 \<lparr>x4 = 1 + 5, y4 = 2 + 6, z4 = 3 + 7, w4 = 4 + (8::real)\<rparr>)"
  by (simp add: binary_operator_def)







section \<open>Properties of the matrix types\<close>

text \<open>
  Claim C1. \<^verbatim>\<open>Multiply(a, a, &a)\<close>, and more generally \<^verbatim>\<open>Multiply(a, b, result)\<close> with
  \<^verbatim>\<open>result\<close> any address, also that of \<^verbatim>\<open>a\<close> or of \<^verbatim>\<open>b\<close> as in \<^verbatim>\<open>operator*=\<close>,
  leaves at \<^verbatim>\<open>result\<close> the matrix that computing the product into a temporary and then
  copying the temporary to \<^verbatim>\<open>result\<close> leaves there: the product of the operands as they
  were before the call. This holds for \<^verbatim>\<open>Matrix33\<close> and \<^verbatim>\<open>Matrix44\<close>, and for the
  matrix-vector overloads when the result vector is the input vector, as in
  \<^verbatim>\<open>operator*(const Matrix33&, Vec3)\<close> and \<^verbatim>\<open>operator*(const Matrix44&, Vec4)\<close>. No law
  of the scalar arithmetic is used.
\<close>

theorem Multiply_result_may_alias:
  fixes h :: "addr \<Rightarrow> 'a::{zero,plus,times} Matrix33" and h' :: "addr \<Rightarrow> 'a Matrix44"
    and g :: "addr \<Rightarrow> 'a TVec3" and g' :: "addr \<Rightarrow> 'a TVec4"
    and v :: "'a TVec3" and v' :: "'a TVec4"
  shows
  "Matrix33_Multiply a a a h a = Matrix33_Multiply_via_temporary a a a tmp h a
   \<and> Matrix33_Multiply a b result h result = Matrix33_Multiply_via_temporary a b result tmp h result
   \<and> Matrix33_Multiply a b result h result
       = \<lparr>data33 = MatrixMultiply 3 3 3 (data33 (h a)) (data33 (h b))\<rparr>
   \<and> Matrix33_mul_assign a b h a = Matrix33_Multiply_via_temporary a b a tmp h a
   \<and> Matrix44_Multiply a a a h' a = Matrix44_Multiply_via_temporary a a a tmp h' a
   \<and> Matrix44_Multiply a b result h' result = Matrix44_Multiply_via_temporary a b result tmp h' result
   \<and> Matrix44_Multiply a b result h' result
       = \<lparr>data44 = MatrixMultiply 4 4 4 (data44 (h' a)) (data44 (h' b))\<rparr>
   \<and> Matrix44_mul_assign a b h' a = Matrix44_Multiply_via_temporary a b a tmp h' a
   \<and> Matrix33_Multiply_Vec3 m vec vec g vec = Matrix33_Multiply_Vec3_via_temporary m vec vec tmp g vec
   \<and> Matrix33_Multiply_Vec3 m vec vec g vec
       = TVec3_of_data (MatrixMultiply 3 3 1 (data33 m) (TVec3_data (g vec)))
   \<and> Matrix44_Multiply_Vec4 m' vec vec g' vec = Matrix44_Multiply_Vec4_via_temporary m' vec vec tmp g' vec
   \<and> Matrix44_Multiply_Vec4 m' vec vec g' vec
       = TVec4_of_data (MatrixMultiply 4 4 1 (data44 m') (TVec4_data (g' vec)))
   \<and> Matrix33_times_Vec3 m v = TVec3_of_data (MatrixMultiply 3 3 1 (data33 m) (TVec3_data v))
   \<and> Matrix44_times_Vec4 m' v' = TVec4_of_data (MatrixMultiply 4 4 1 (data44 m') (TVec4_data v'))"
  by (simp add: Matrix33_times_Vec3_def Matrix44_times_Vec4_def Matrix33_Multiply_def Matrix33_Multiply_via_temporary_def Matrix33_mul_assign_def
      Matrix44_Multiply_def Matrix44_Multiply_via_temporary_def Matrix44_mul_assign_def
      Matrix33_Multiply_Vec3_def Matrix33_Multiply_Vec3_via_temporary_def
      Matrix44_Multiply_Vec4_def Matrix44_Multiply_Vec4_via_temporary_def Let_def)

text \<open>The matrix with cells \<open>1, \<dots>, 9\<close>, squared over itself: the result is its square.\<close>

theorem Multiply_result_may_alias_witness:
  "Matrix33_Multiply 0 0 0 (\<lambda>_. \<lparr>data33 = [1, 2, 3, 4, 5, 6, 7, 8, 9 :: real]\<rparr>) 0
     = \<lparr>data33 = [30, 36, 42, 66, 81, 96, 102, 126, 150]\<rparr>
   \<and> Matrix33_Multiply_via_temporary 0 0 0 1 (\<lambda>_. \<lparr>data33 = [1, 2, 3, 4, 5, 6, 7, 8, 9 :: real]\<rparr>) 0
     = \<lparr>data33 = [30, 36, 42, 66, 81, 96, 102, 126, 150]\<rparr>"
proof -
  let ?h = "\<lambda>_ :: addr. \<lparr>data33 = [1, 2, 3, 4, 5, 6, 7, 8, 9 :: real]\<rparr>"
  note T = Multiply_result_may_alias [where a = 0 and b = 0 and result = 0 and tmp = 1 and h = ?h]
  from T have e: "Matrix33_Multiply 0 0 0 ?h 0 = Matrix33_Multiply_via_temporary 0 0 0 1 ?h 0"
    by blast
  from T have "Matrix33_Multiply 0 0 0 ?h 0
      = \<lparr>data33 = MatrixMultiply 3 3 3 (data33 (?h 0)) (data33 (?h 0))\<rparr>"
    by blast
  then have p: "Matrix33_Multiply 0 0 0 ?h 0 = \<lparr>data33 = [30, 36, 42, 66, 81, 96, 102, 126, 150]\<rparr>"
    by (simp add: MatrixMultiply_def upt_0_3)
  from e p show ?thesis by simp
qed

text \<open>
  Claim C7, as the code has it. \<^verbatim>\<open>Matrix33::Identity()\<close> has \<open>1\<close> on the diagonal and
  \<open>0\<close> elsewhere, and for every \<^verbatim>\<open>Vec3\<close> \<open>v\<close> whose components are finite,
  \<^verbatim>\<open>Matrix33::Identity() * v\<close> equals \<open>v\<close>, component by component, with no tolerance:
  no operation of the product rounds.
\<close>

theorem Identity_times_finite_vector:
  fixes v :: "float TVec3"
  assumes "is_finite (x3 v)" and "is_finite (y3 v)" and "is_finite (z3 v)"
  shows "data33 (Matrix33_Identity :: float Matrix33) = [1, 0, 0, 0, 1, 0, 0, 0, 1]
   \<and> Matrix33_times_Vec3 Matrix33_Identity v = v"
  using assms
  by (simp add: Matrix33_times_Vec3_def Matrix33_Multiply_Vec3_def MatrixMultiply_def
      data33_Identity upt_0_3 upt_0_1 TVec3_data_def TVec3_of_data_def
      float_one_times float_zero_times float_zero_plus float_plus_zero is_finite_zero)

text \<open>The vector \<open>(1, 2, 3)\<close>.\<close>

theorem Identity_times_finite_vector_witness:
  "is_finite (Finite 1) \<and> is_finite (Finite 2) \<and> is_finite (Finite 3)
   \<and> Matrix33_times_Vec3 Matrix33_Identity \<lparr>x3 = Finite 1, y3 = Finite 2, z3 = Finite 3\<rparr>
       = \<lparr>x3 = Finite 1, y3 = Finite 2, z3 = Finite 3\<rparr>"
  using Identity_times_finite_vector [of "\<lparr>x3 = Finite 1, y3 = Finite 2, z3 = Finite 3\<rparr>"]
  by simp

text \<open>
  Claim C7 as it was stated asks for the equality for every \<^verbatim>\<open>Vec3\<close>. For
  \<open>v = (\<infinity>, 2, 3)\<close> the rows \<open>(0, 1, 0)\<close> and \<open>(0, 0, 1)\<close> multiply \<open>0\<close> by the
  infinite component, which is NaN, and the product is \<open>(\<infinity>, NaN, NaN)\<close>.
\<close>

theorem Identity_times_infinite_counterexample:
  "Matrix33_times_Vec3 Matrix33_Identity \<lparr>x3 = PInf, y3 = Finite 2, z3 = Finite 3\<rparr>
     = \<lparr>x3 = PInf, y3 = NaN, z3 = NaN\<rparr>
   \<and> Matrix33_times_Vec3 Matrix33_Identity \<lparr>x3 = PInf, y3 = Finite 2, z3 = Finite 3\<rparr>
     \<noteq> \<lparr>x3 = PInf, y3 = Finite 2, z3 = Finite 3\<rparr>"
  by (simp add: Matrix33_times_Vec3_def Matrix33_Multiply_Vec3_def MatrixMultiply_def
      data33_Identity upt_0_3 upt_0_1 TVec3_data_def TVec3_of_data_def
      times_float_def plus_float_def zero_float_def one_float_def)

end
